theory Spec2Isabelle
  imports Main "HOL-Library.Word"
begin

unbundle bit_operations_syntax

section \<open>Machine values and native memory\<close>

text \<open>
  The package runs on darwin (64-bit, little-endian). A \<^verbatim>\<open>uintptr\<close> is a 64-bit word, a
  byte is a \<^typ>\<open>char\<close> (8 bits), a Go \<^verbatim>\<open>string\<close> is a list of bytes. Native memory is
  a partial map from addresses to bytes: reading an address that is not mapped faults, and
  the process dies.
\<close>

type_synonym uintptr = "64 word"
type_synonym byte = char
type_synonym memory = "uintptr \<rightharpoonup> byte"

abbreviation NUL :: byte where
  "NUL \<equiv> CHR 0x00"

text \<open>
  How a call of the package can end other than by returning: a Go run-time panic, a fault
  on unmapped native memory, or a send on a nil channel, which blocks the calling thread
  forever. Non-termination of a loop is the value \<open>None\<close> of an option.
\<close>

datatype failure = Panic | Fault | BlockedForever

text \<open>\<open>load_bytes mem a n\<close> reads the \<open>n\<close> bytes at \<open>a\<close>, \<open>a + 1\<close>, ...\<close>

definition load_bytes :: "memory \<Rightarrow> uintptr \<Rightarrow> nat \<Rightarrow> byte list option" where
  "load_bytes mem a n = those (map (\<lambda>k. mem (a + of_nat k)) [0..<n])"

text \<open>Little-endian loads of the element types of the three native arrays.\<close>

definition load64 :: "memory \<Rightarrow> uintptr \<Rightarrow> 64 word option" where
  "load64 mem a = map_option (horner_sum of_char 256) (load_bytes mem a 8)"

definition load32 :: "memory \<Rightarrow> uintptr \<Rightarrow> 32 word option" where
  "load32 mem a = map_option (horner_sum of_char 256) (load_bytes mem a 4)"

section \<open>Decoding a C string: \<^verbatim>\<open>cStringToGoString\<close>\<close>

text \<open>
  The scan for the terminating zero byte. Go's \<^verbatim>\<open>length\<close> (here \<open>len\<close>) is an \<^verbatim>\<open>int\<close>;
  the address read is \<^verbatim>\<open>cstr + uintptr(length)\<close>, so the counter is kept as the 64-bit
  word both share. The loop has no bound of its own.
\<close>

partial_function (option) strlen_loop ::
  "memory \<Rightarrow> uintptr \<Rightarrow> 64 word \<Rightarrow> (failure + 64 word) option" where
  "strlen_loop mem cstr len =
     (case mem (cstr + len) of
        None \<Rightarrow> Some (Inl Fault)
      | Some b \<Rightarrow>
          if b = NUL then Some (Inr len)
          else strlen_loop mem cstr (len + 1))"

declare strlen_loop.simps [code]

text \<open>
  \<^verbatim>\<open>unsafe.Slice(ptr, length)\<close> panics when \<^verbatim>\<open>length\<close> is negative or the slice would
  run past the end of the address space.
\<close>

definition cStringToGoString :: "memory \<Rightarrow> uintptr \<Rightarrow> (failure + string) option" where
  "cStringToGoString mem cstr =
     (if cstr = 0 then Some (Inr [])
      else
        case strlen_loop mem cstr 0 of
          None \<Rightarrow> None
        | Some (Inl f) \<Rightarrow> Some (Inl f)
        | Some (Inr len) \<Rightarrow>
            if len = 0 then Some (Inr [])
            else if sint len < 0 \<or> 2 ^ 64 - unat cstr < unat len
              then Some (Inl Panic)
            else
              (case load_bytes mem cstr (unat len) of
                 None \<Rightarrow> Some (Inl Fault)
               | Some data \<Rightarrow> Some (Inr data)))"

section \<open>Events, streams and the Go side of the callback\<close>

text \<open>
  The struct declarations are not in \<^verbatim>\<open>wrap.go\<close>; the fields are the ones \<^verbatim>\<open>wrap.go\<close>
  reads and writes, with the types it uses them at. \<^verbatim>\<open>Event.Flags\<close> is an \<^verbatim>\<open>EventFlags\<close>
  (\<^verbatim>\<open>uint32\<close>); the \<^verbatim>\<open>CreateFlags\<close> field of a stream, also called \<^verbatim>\<open>Flags\<close> in Go, is
  \<open>CreateFlags\<close> here.
\<close>

record Event =
  Path :: string
  Flags :: "32 word"
  ID :: "64 word"

text \<open>A channel is named by a number, \<open>0\<close> being the nil channel.\<close>

type_synonym chan = nat

record EventStream =
  stream :: uintptr
  qref :: uintptr
  Events :: chan
  Paths :: "string list"
  CreateFlags :: "32 word"
  EventID :: "64 word"
  Resume :: bool
  Latency :: int
  Device :: "32 word"

datatype logline =
    Log_registry_miss uintptr  \<comment> \<open>\<^verbatim>\<open>"failed to retrieve registry %d", info\<close>\<close>
  | Log_create_paths string    \<comment> \<open>\<^verbatim>\<open>"Error creating paths: %s", err\<close>\<close>

text \<open>
  What the callback can touch on the Go side: the Registry, the stream objects it points
  to (by address), the values sent on each channel so far (oldest first), and the log.
\<close>

record gostate =
  registry :: "uintptr \<rightharpoonup> nat"
  streams :: "nat \<Rightarrow> EventStream"
  chans :: "chan \<Rightarrow> Event list list"
  logged :: "logline list"

text \<open>
  Modelled from the spec: \<^verbatim>\<open>registry.Get\<close>, whose source is not in \<^verbatim>\<open>wrap.go\<close>. The
  Registry is a map from a context token to the stream that owns it; a token that was
  never registered, or was removed, gives nil.
\<close>

definition registry_Get :: "gostate \<Rightarrow> uintptr \<Rightarrow> nat option" where
  "registry_Get g info = registry g info"

definition log_Printf :: "logline \<Rightarrow> gostate \<Rightarrow> gostate" where
  "log_Printf line g = g\<lparr>logged := logged g @ [line]\<rparr>"

definition set_EventID :: "nat \<Rightarrow> 64 word \<Rightarrow> gostate \<Rightarrow> gostate" where
  "set_EventID es v g = g\<lparr>streams := (streams g)(es := (streams g es)\<lparr>EventID := v\<rparr>)\<rparr>"

text \<open>
  \<^verbatim>\<open>ch <- v\<close>. A send on the nil channel never completes. A send on a live channel
  completes once a consumer takes the value; the consumer is not modelled, the value is
  recorded as sent.
\<close>

definition chan_send :: "chan \<Rightarrow> Event list \<Rightarrow> gostate \<Rightarrow> failure + gostate" where
  "chan_send c v g =
     (if c = 0 then Inl BlockedForever
      else Inr (g\<lparr>chans := (chans g)(c := chans g c @ [v])\<rparr>))"

definition zeroEvent :: Event where
  "zeroEvent = \<lparr>Path = [], Flags = 0, ID = 0\<rparr>"

section \<open>The callback\<close>

text \<open>
  One turn of the loop body reads slot \<open>i\<close> of the three arrays:
  \<^verbatim>\<open>pathSlice[i]\<close> is the pointer at \<^verbatim>\<open>paths + 8*i\<close>, \<^verbatim>\<open>flagSlice[i]\<close> the \<^verbatim>\<open>uint32\<close> at
  \<^verbatim>\<open>flags + 4*i\<close>, \<^verbatim>\<open>idSlice[i]\<close> the \<^verbatim>\<open>uint64\<close> at \<^verbatim>\<open>ids + 8*i\<close>.
\<close>

definition decode_slot ::
  "memory \<Rightarrow> uintptr \<Rightarrow> uintptr \<Rightarrow> uintptr \<Rightarrow> nat \<Rightarrow> (failure + Event) option" where
  "decode_slot mem paths flags ids i =
     (case load64 mem (paths + 8 * of_nat i) of
        None \<Rightarrow> Some (Inl Fault)
      | Some p \<Rightarrow>
          (case cStringToGoString mem p of
             None \<Rightarrow> None
           | Some (Inl f) \<Rightarrow> Some (Inl f)
           | Some (Inr path) \<Rightarrow>
               (case load32 mem (flags + 4 * of_nat i) of
                  None \<Rightarrow> Some (Inl Fault)
                | Some fl \<Rightarrow>
                    (case load64 mem (ids + 8 * of_nat i) of
                       None \<Rightarrow> Some (Inl Fault)
                     | Some eid \<Rightarrow> Some (Inr \<lparr>Path = path, Flags = fl, ID = eid\<rparr>)))))"

text \<open>
  \<^verbatim>\<open>for i := 0; i < l; i++\<close>: each turn stores the event in \<^verbatim>\<open>events[i]\<close> and assigns its
  identifier to \<^verbatim>\<open>es.EventID\<close>.
\<close>

function callback_loop ::
  "memory \<Rightarrow> uintptr \<Rightarrow> uintptr \<Rightarrow> uintptr \<Rightarrow> nat \<Rightarrow> nat \<Rightarrow> nat \<Rightarrow> Event list \<Rightarrow> gostate
     \<Rightarrow> (failure + Event list \<times> gostate) option" where
  "callback_loop mem paths flags ids es l i events g =
     (if i < l then
        (case decode_slot mem paths flags ids i of
           None \<Rightarrow> None
         | Some (Inl f) \<Rightarrow> Some (Inl f)
         | Some (Inr e) \<Rightarrow>
             callback_loop mem paths flags ids es l (Suc i) (events[i := e])
               (set_EventID es (ID e) g))
      else Some (Inr (events, g)))"
  by pat_completeness auto
termination
  by (relation "measure (\<lambda>(mem, paths, flags, ids, es, l, i, events, g). l - i)") auto

text \<open>
  The callback. \<^verbatim>\<open>make([]Event, l)\<close> panics on a negative \<^verbatim>\<open>l\<close>; the three array views
  \<^verbatim>\<open>(*[1 << 30]T)(unsafe.Pointer(p))[:l:l]\<close> panic on a nil \<^verbatim>\<open>p\<close> and on \<^verbatim>\<open>l\<close> above
  \<^verbatim>\<open>1 << 30\<close>. The native stream handle \<open>strm\<close> is not used.
\<close>

definition callback ::
  "memory \<Rightarrow> uintptr \<Rightarrow> uintptr \<Rightarrow> int \<Rightarrow> uintptr \<Rightarrow> uintptr \<Rightarrow> uintptr \<Rightarrow> gostate
     \<Rightarrow> (failure + gostate) option" where
  "callback mem strm info numEvents paths flags ids g =
     (case registry_Get g info of
        None \<Rightarrow> Some (Inr (log_Printf (Log_registry_miss info) g))
      | Some es \<Rightarrow>
          (let l = numEvents in
           if l < 0 then Some (Inl Panic)
           else if paths = 0 \<or> flags = 0 \<or> ids = 0 \<or> 2 ^ 30 < l then Some (Inl Panic)
           else
             (case callback_loop mem paths flags ids es (nat l) 0
                     (replicate (nat l) zeroEvent) g of
                None \<Rightarrow> None
              | Some (Inl f) \<Rightarrow> Some (Inl f)
              | Some (Inr (events, g')) \<Rightarrow>
                  Some (chan_send (Events (streams g' es)) events g'))))"

section \<open>Concrete inputs\<close>

text \<open>
  A memory made of segments, each a base address and the bytes stored from it on.
\<close>

definition mem_of :: "(uintptr \<times> byte list) list \<Rightarrow> memory" where
  "mem_of segs a =
     (case List.find (\<lambda>(b, bs). unat b \<le> unat a \<and> unat a < unat b + length bs) segs of
        None \<Rightarrow> None
      | Some (b, bs) \<Rightarrow> Some (bs ! (unat a - unat b)))"

text \<open>
  A batch of two events as the native side lays it out: the path array at \<open>0x1000\<close> holds
  the pointer \<open>0x2000\<close> and a null pointer, the flag array at \<open>0x1100\<close> holds \<open>0x100\<close> and
  \<open>1\<close>, the identifier array at \<open>0x1200\<close> holds \<open>5\<close> and \<open>3\<close>, and the C string \<^verbatim>\<open>"/a"\<close> is
  at \<open>0x2000\<close>.
\<close>

definition batch_mem :: memory where
  "batch_mem = mem_of
     [(0x1000, [CHR 0x00, CHR 0x20, NUL, NUL, NUL, NUL, NUL, NUL,
                NUL, NUL, NUL, NUL, NUL, NUL, NUL, NUL]),
      (0x1100, [CHR 0x00, CHR 0x01, NUL, NUL, CHR 0x01, NUL, NUL, NUL]),
      (0x1200, [CHR 0x05, NUL, NUL, NUL, NUL, NUL, NUL, NUL,
                CHR 0x03, NUL, NUL, NUL, NUL, NUL, NUL, NUL]),
      (0x2000, ''/a'' @ [NUL])]"

text \<open>
  A Go side with one stream, at address \<open>1\<close>, registered under the token \<open>7\<close> and
  writing to channel \<open>1\<close>; nothing sent, nothing logged.
\<close>

definition idle_stream :: EventStream where
  "idle_stream = \<lparr>stream = 0, qref = 0, Events = 1, Paths = [], CreateFlags = 0,
     EventID = 0, Resume = False, Latency = 0, Device = 0\<rparr>"

definition g_one :: gostate where
  "g_one = \<lparr>registry = [7 \<mapsto> 1], streams = (\<lambda>_. idle_stream),
     chans = (\<lambda>_. []), logged = []\<rparr>"

section \<open>The callback on a token the Registry does not hold\<close>

text \<open>
  Claim C5. When the context token is not in the Registry, the callback returns normally
  (no panic, no fault, no blocking, no divergence) and the only change to the Go side is
  one more log line naming the token: the Registry, every stream and every channel are as
  before. The memory is arbitrary, so nothing of the batch is read: were a slot decoded,
  the empty memory would fault.
\<close>

theorem callback_registry_miss:
  "registry_Get g info = None \<Longrightarrow>
     callback mem strm info numEvents paths flags ids g =
       Some (Inr (g\<lparr>logged := logged g @ [Log_registry_miss info]\<rparr>))"
  by (simp add: callback_def log_Printf_def)

theorem callback_registry_miss_witness:
  "registry_Get g_one 9 = None \<and>
   callback Map.empty 0 9 2 0x1000 0x1100 0x1200 g_one =
     Some (Inr (g_one\<lparr>logged := [Log_registry_miss 9]\<rparr>))"
  using callback_registry_miss [of g_one 9 Map.empty 0 2 "0x1000" "0x1100" "0x1200"]
  by (simp add: registry_Get_def g_one_def)

end
